theory Spec2Isabelle
  imports Main
begin

section \<open>The parsed XML document\<close>

text \<open>
  The extractors of \<^verbatim>\<open>scripts/update.py\<close> and \<^verbatim>\<open>scripts/update_datasets.py\<close> work on
  the tree that \<^verbatim>\<open>xml.etree.ElementTree\<close> hands back: an element has a tag, an attribute
  dictionary, an optional text (\<^verbatim>\<open>None\<close> when the element has no character data before its
  first child) and its child elements in document order.  Strings are \<^typ>\<open>string\<close>, a
  character being a code point below 256; the character classes used below
  (\<^verbatim>\<open>str.isspace\<close>, \<^verbatim>\<open>\d\<close>) are Python's on that range.
  Reading and parsing the file (\<^verbatim>\<open>ET.parse\<close>, which raises on malformed XML) happens before
  any of the loops and is not part of the model: every extractor starts from the root element.
\<close>

datatype element =
  Element (tag: string) (attrib: "(string \<times> string) list") (text_of: "string option")
    (children: "element list")

text \<open>\<^verbatim>\<open>Element.iter()\<close>: the element itself, then its descendants, in document order.\<close>

fun iter :: "element \<Rightarrow> element list" where
  "iter (Element t a x cs) = Element t a x cs # concat (map iter cs)"

text \<open>
  The path expressions of the source use three kinds of steps: a child tag (\<^verbatim>\<open>A\<close>), a
  child tag with an attribute predicate (\<^verbatim>\<open>A[@k='v']\<close>) and a descendant tag
  (\<^verbatim>\<open>.//A\<close>, which never yields the context element itself).
\<close>

datatype step = Child string | ChildWithAttr string string string | Descendant string

fun select_step :: "step \<Rightarrow> element \<Rightarrow> element list" where
  "select_step (Child t) e = filter (\<lambda>c. tag c = t) (children e)"
| "select_step (ChildWithAttr t k v) e =
     filter (\<lambda>c. map_of (attrib c) k = Some v) (filter (\<lambda>c. tag c = t) (children e))"
| "select_step (Descendant t) e = filter (\<lambda>c. tag c = t) (concat (map iter (children e)))"

fun iterfind :: "element list \<Rightarrow> step list \<Rightarrow> element list" where
  "iterfind es [] = es"
| "iterfind es (s # ss) = iterfind (concat (map (select_step s) es)) ss"

definition findall :: "element \<Rightarrow> step list \<Rightarrow> element list" where
  "findall e path = iterfind [e] path"

text \<open>\<^verbatim>\<open>Element.find\<close>: the first match, or \<^verbatim>\<open>None\<close>.\<close>

definition find_el :: "element \<Rightarrow> step list \<Rightarrow> element option" where
  "find_el e path = (case findall e path of [] \<Rightarrow> None | x # _ \<Rightarrow> Some x)"

text \<open>
  \<^verbatim>\<open>Element.findtext\<close> with its default \<^verbatim>\<open>None\<close>: the text of the first match, the empty
  string when that element has no text, \<^verbatim>\<open>None\<close> when nothing matches.
\<close>

definition findtext :: "element \<Rightarrow> step list \<Rightarrow> string option" where
  "findtext e path =
     (case find_el e path of
        None \<Rightarrow> None
      | Some x \<Rightarrow> Some (case text_of x of None \<Rightarrow> [] | Some s \<Rightarrow> s))"

text \<open>\<^verbatim>\<open>x or ""\<close> for an optional string: \<^verbatim>\<open>None\<close> and the empty string both give \<^verbatim>\<open>""\<close>.\<close>

definition or_empty :: "string option \<Rightarrow> string" where
  "or_empty x = (case x of None \<Rightarrow> [] | Some s \<Rightarrow> s)"

section \<open>Strings and dictionaries\<close>

text \<open>
  \<^verbatim>\<open>str.isspace\<close> on one character: TAB, LF, VT, FF, CR, FS, GS, RS, US, space, NEL
  (\<^verbatim>\<open>0x85\<close>) and the no-break space (\<^verbatim>\<open>0xA0\<close>).
\<close>

definition is_space :: "char \<Rightarrow> bool" where
  "is_space c = (c \<in> set [CHR 0x09, CHR 0x0A, CHR 0x0B, CHR 0x0C, CHR 0x0D,
                            CHR 0x1C, CHR 0x1D, CHR 0x1E, CHR 0x1F, CHR 0x20,
                            CHR 0x85, CHR 0xA0])"

definition strip :: "string \<Rightarrow> string" where
  "strip s = rev (dropWhile is_space (rev (dropWhile is_space s)))"

text \<open>\<^verbatim>\<open>sep.join(xs)\<close>.\<close>

fun join :: "'a list \<Rightarrow> 'a list list \<Rightarrow> 'a list" where
  "join sep [] = []"
| "join sep [x] = x"
| "join sep (x # y # ys) = x @ sep @ join sep (y # ys)"

text \<open>\<^verbatim>\<open>d.get(k, default)\<close>.\<close>

definition dict_get :: "('k \<rightharpoonup> 'v) \<Rightarrow> 'k \<Rightarrow> 'v \<Rightarrow> 'v" where
  "dict_get d k dflt = (case d k of None \<Rightarrow> dflt | Some v \<Rightarrow> v)"

text \<open>
  \<^verbatim>\<open>d[k].append(v)\<close> on a \<^verbatim>\<open>defaultdict(list)\<close>: a missing key is created with the empty
  list before the append.
\<close>

definition dd_append :: "('k \<rightharpoonup> 'v list) \<Rightarrow> 'k \<Rightarrow> 'v \<Rightarrow> ('k \<rightharpoonup> 'v list)" where
  "dd_append d k v = d(k \<mapsto> (case d k of None \<Rightarrow> [] | Some l \<Rightarrow> l) @ [v])"

section \<open>The definition extractor\<close>

text \<open>
  The inner loop of \<^verbatim>\<open>parse_definitions\<close> over the text sections of one summary
  entry.  The loop variable \<^verbatim>\<open>definition\<close> is threaded through; the \<^verbatim>\<open>break\<close> ends the
  recursion.
\<close>

fun text_section_loop :: "element list \<Rightarrow> string \<Rightarrow> string" where
  "text_section_loop [] definition = definition"
| "text_section_loop (text_section # rest) definition =
     (case find_el text_section [Child ''TextSectionType'', ChildWithAttr ''Name'' ''lang'' ''en''] of
        None \<Rightarrow> text_section_loop rest definition
      | Some section_type \<Rightarrow>
          if text_of section_type = Some ''Definition'' then
            (case findtext text_section [Child ''Contents''] of
               None \<Rightarrow> text_section_loop rest definition
             | Some contents \<Rightarrow>
                 if contents \<noteq> [] then strip contents
                 else text_section_loop rest definition)
          else text_section_loop rest definition)"

text \<open>The outer loop over the summary entries, with its own \<^verbatim>\<open>break\<close>.\<close>

fun summary_info_loop :: "element list \<Rightarrow> string \<Rightarrow> string" where
  "summary_info_loop [] definition = definition"
| "summary_info_loop (summary_info # rest) definition =
     (let lang = dict_get (map_of (attrib summary_info)) ''lang'' [];
          definition' =
            (if lang = ''en'' then
               text_section_loop
                 (findall summary_info [Child ''TextSectionList'', Child ''TextSection''])
                 definition
             else definition)
      in if definition' \<noteq> [] then definition' else summary_info_loop rest definition')"

text \<open>The value stored for one disorder.\<close>

definition disorder_definition :: "element \<Rightarrow> string" where
  "disorder_definition disorder =
     summary_info_loop
       (findall disorder [Child ''SummaryInformationList'', Child ''SummaryInformation'']) []"

text \<open>The body of the loop over the disorders: \<^verbatim>\<open>data[code] = definition\<close>.\<close>

definition definitions_step ::
  "string list \<Rightarrow> element \<Rightarrow> (string \<rightharpoonup> string) \<Rightarrow> (string \<rightharpoonup> string)" where
  "definitions_step orphacodes disorder data =
     (case findtext disorder [Child ''OrphaCode''] of
        None \<Rightarrow> data
      | Some code \<Rightarrow>
          if code \<in> set orphacodes then data(code \<mapsto> disorder_definition disorder)
          else data)"

text \<open>
  The code set is given by the sequence in which it is iterated; membership is membership in
  that sequence.
\<close>

definition parse_definitions :: "element \<Rightarrow> string list \<Rightarrow> (string \<rightharpoonup> string)" where
  "parse_definitions root orphacodes =
     fold (definitions_step orphacodes) (findall root [Descendant ''Disorder'']) Map.empty"

section \<open>The phenotype extractor\<close>

definition phenotypes_inner ::
  "string \<Rightarrow> string \<Rightarrow> element \<Rightarrow> (string \<rightharpoonup> string list) \<Rightarrow> (string \<rightharpoonup> string list)" where
  "phenotypes_inner target_freq code assoc phenos =
     (let freq_name = findtext assoc [Child ''HPOFrequency'', ChildWithAttr ''Name'' ''lang'' ''en'']
      in if freq_name = Some target_freq then
           (let hpo_term = or_empty (findtext assoc [Child ''HPO'', Child ''HPOTerm'']);
                hpo_id = or_empty (findtext assoc [Child ''HPO'', Child ''HPOId''])
            in if hpo_term \<noteq> [] \<and> hpo_id \<noteq> []
               then dd_append phenos code (hpo_term @ '' ('' @ hpo_id @ '')'')
               else phenos)
         else phenos)"

definition phenotypes_step ::
  "string \<Rightarrow> string list \<Rightarrow> element \<Rightarrow> (string \<rightharpoonup> string list) \<Rightarrow> (string \<rightharpoonup> string list)" where
  "phenotypes_step target_freq orphacodes disorder phenos =
     (case findtext disorder [Child ''OrphaCode''] of
        None \<Rightarrow> phenos
      | Some code \<Rightarrow>
          if code \<notin> set orphacodes then phenos
          else
            (case find_el disorder [Child ''HPODisorderAssociationList''] of
               None \<Rightarrow> phenos
             | Some assoc_list \<Rightarrow>
                 fold (phenotypes_inner target_freq code)
                   (findall assoc_list [Child ''HPODisorderAssociation'']) phenos))"

definition parse_phenotypes ::
  "element \<Rightarrow> string list \<Rightarrow> string \<Rightarrow> (string \<rightharpoonup> string list)" where
  "parse_phenotypes root orphacodes target_freq =
     fold (phenotypes_step target_freq orphacodes) (findall root [Descendant ''Disorder''])
       Map.empty"

section \<open>The prevalence extractor\<close>

text \<open>\<^verbatim>\<open>\d\<close>: below 256 the only decimal digits are \<^verbatim>\<open>0\<close> to \<^verbatim>\<open>9\<close>.\<close>

definition is_digit :: "char \<Rightarrow> bool" where
  "is_digit c = (c \<in> set ''0123456789'')"

text \<open>
  \<^verbatim>\<open>re.compile(r'(\d+)\[PMID\]').findall(s)\<close>: the scan goes from left to right; at each
  position the greedy digit run must be followed by the literal \<^verbatim>\<open>[PMID]\<close> (a shorter run
  would be followed by a digit, so backtracking never helps); after a match the scan resumes
  behind it, otherwise one character further.  The result lists the digit groups.
\<close>

function pmid_findall :: "string \<Rightarrow> string list" where
  "pmid_findall [] = []"
| "pmid_findall (c # cs) =
     (let digits = takeWhile is_digit (c # cs);
          rest = dropWhile is_digit (c # cs)
      in if digits \<noteq> [] \<and> take 6 rest = ''[PMID]''
         then digits # pmid_findall (drop 6 rest)
         else pmid_findall cs)"
  by pat_completeness auto
termination
proof (relation "measure length")
  show "wf (measure length)" by simp
next
  fix c :: char and cs x xa :: string
  assume "xa = dropWhile is_digit (c # cs)"
  then have "length xa \<le> length (c # cs)" by (simp only: length_dropWhile_le)
  moreover assume "x \<noteq> [] \<and> take 6 xa = ''[PMID]''"
  then have "length (take 6 xa) = 6" by simp
  then have "6 \<le> length xa" by simp
  ultimately show "(drop 6 xa, c # cs) \<in> measure length" by simp
next
  fix c :: char and cs :: string
  show "(cs, c # cs) \<in> measure length" by simp
qed

definition prevalence_str :: "element \<Rightarrow> string" where
  "prevalence_str prev =
     (let val = or_empty (findtext prev [Child ''ValMoy'']);
          class_name = or_empty (findtext prev
                     [Child ''PrevalenceClass'', ChildWithAttr ''Name'' ''lang'' ''en'']);
          source_text = or_empty (findtext prev [Child ''Source'']);
          pmids = pmid_findall source_text;
          prevalence_str1 = (if class_name \<noteq> [] then val @ '' ('' @ class_name @ '')'' else val)
      in if pmids \<noteq> [] then prevalence_str1 @ '' (PMID:'' @ join '','' pmids @ '')''
         else prevalence_str1)"

definition prevalence_inner ::
  "string \<Rightarrow> element \<Rightarrow> (string \<rightharpoonup> string list) \<Rightarrow> (string \<rightharpoonup> string list)" where
  "prevalence_inner code prev prev_data = dd_append prev_data code (prevalence_str prev)"

definition prevalence_step ::
  "string list \<Rightarrow> element \<Rightarrow> (string \<rightharpoonup> string list) \<Rightarrow> (string \<rightharpoonup> string list)" where
  "prevalence_step orphacodes disorder prev_data =
     (case findtext disorder [Child ''OrphaCode''] of
        None \<Rightarrow> prev_data
      | Some code \<Rightarrow>
          if code \<notin> set orphacodes then prev_data
          else
            (case find_el disorder [Child ''PrevalenceList''] of
               None \<Rightarrow> prev_data
             | Some prev_list \<Rightarrow>
                 fold (prevalence_inner code) (findall prev_list [Child ''Prevalence''])
                   prev_data))"

definition parse_prevalence :: "element \<Rightarrow> string list \<Rightarrow> (string \<rightharpoonup> string list)" where
  "parse_prevalence root orphacodes =
     fold (prevalence_step orphacodes) (findall root [Descendant ''Disorder'']) Map.empty"

section \<open>The OMIM extractor\<close>

definition omim_inner ::
  "string \<Rightarrow> element \<Rightarrow> (string \<rightharpoonup> string list) \<Rightarrow> (string \<rightharpoonup> string list)" where
  "omim_inner code ext_ref omim_map =
     (let source = findtext ext_ref [Child ''Source''];
          ref = findtext ext_ref [Child ''Reference'']
      in if source = Some ''OMIM'' \<and> or_empty ref \<noteq> []
         then dd_append omim_map code (or_empty ref)
         else omim_map)"

definition omim_step ::
  "string list \<Rightarrow> element \<Rightarrow> (string \<rightharpoonup> string list) \<Rightarrow> (string \<rightharpoonup> string list)" where
  "omim_step orphacodes disorder omim_map =
     (case findtext disorder [Child ''OrphaCode''] of
        None \<Rightarrow> omim_map
      | Some code \<Rightarrow>
          if code \<notin> set orphacodes then omim_map
          else
            (case find_el disorder [Child ''ExternalReferenceList''] of
               None \<Rightarrow> omim_map
             | Some ext_refs \<Rightarrow>
                 fold (omim_inner code) (findall ext_refs [Child ''ExternalReference''])
                   omim_map))"

definition parse_omim :: "element \<Rightarrow> string list \<Rightarrow> (string \<rightharpoonup> string list)" where
  "parse_omim root orphacodes =
     fold (omim_step orphacodes) (findall root [Descendant ''Disorder'']) Map.empty"

section \<open>The record merger\<close>

text \<open>
  \<^verbatim>\<open>save_combined_tsv\<close> of \<^verbatim>\<open>update.py\<close>: the list \<^verbatim>\<open>line\<close> built for each code, and the text
  written to the file.
\<close>

definition save_combined_tsv_lines ::
  "(string \<rightharpoonup> string) \<Rightarrow> (string \<rightharpoonup> string list) \<Rightarrow> (string \<rightharpoonup> string list) \<Rightarrow>
   (string \<rightharpoonup> string list) \<Rightarrow> string list \<Rightarrow> string list list" where
  "save_combined_tsv_lines defs phenos prevs omims orphacodes =
     map (\<lambda>code.
            [code,
             dict_get defs code [],
             join ''; '' (dict_get phenos code []),
             join ''; '' (dict_get prevs code []),
             join ''; '' (dict_get omims code [])])
         orphacodes"

definition save_combined_tsv ::
  "(string \<rightharpoonup> string) \<Rightarrow> (string \<rightharpoonup> string list) \<Rightarrow> (string \<rightharpoonup> string list) \<Rightarrow>
   (string \<rightharpoonup> string list) \<Rightarrow> string list \<Rightarrow> string" where
  "save_combined_tsv defs phenos prevs omims orphacodes =
     join [CHR 0x09] [''OrphaCode'', ''Definition'', ''Phenotypes'', ''Prevalence'', ''OMIM'']
       @ [CHR 0x0A]
       @ concat (map (\<lambda>line. join [CHR 0x09] line @ [CHR 0x0A])
                   (save_combined_tsv_lines defs phenos prevs omims orphacodes))"

text \<open>
  \<^verbatim>\<open>save_combined_csv\<close> of \<^verbatim>\<open>update_datasets.py\<close>: the list \<^verbatim>\<open>rows\<close> of dictionaries with
  five fixed keys, handed to the data frame.
\<close>

record merged_row =
  OrphaCode :: string
  Definition :: string
  Phenotypes :: string
  Prevalence :: string
  OMIM :: string

definition save_combined_csv_rows ::
  "(string \<rightharpoonup> string) \<Rightarrow> (string \<rightharpoonup> string list) \<Rightarrow> (string \<rightharpoonup> string list) \<Rightarrow>
   (string \<rightharpoonup> string list) \<Rightarrow> string list \<Rightarrow> merged_row list" where
  "save_combined_csv_rows defs phenos prevs omims orphacodes =
     map (\<lambda>code.
            \<lparr>OrphaCode = code,
             Definition = dict_get defs code [],
             Phenotypes = join ''; '' (dict_get phenos code []),
             Prevalence = join ''; '' (dict_get prevs code []),
             OMIM = join ''; '' (dict_get omims code [])\<rparr>)
         orphacodes"

section \<open>What the loops compute\<close>

text \<open>
  The definitions of this section restate the loops above as list expressions.  They are not
  taken from the code: each one is proved equal to the loop it describes before it is used.
\<close>

subsection \<open>Disorders of a document\<close>

definition disorders :: "element \<Rightarrow> element list" where
  "disorders root = findall root [Descendant ''Disorder'']"

definition code_of :: "element \<Rightarrow> string option" where
  "code_of disorder = findtext disorder [Child ''OrphaCode'']"

text \<open>The disorders carrying a given code, in document order.\<close>

definition with_code :: "string \<Rightarrow> element list \<Rightarrow> element list" where
  "with_code c ds = filter (\<lambda>d. code_of d = Some c) ds"

subsection \<open>Definitions\<close>

definition english_summaries :: "element \<Rightarrow> element list" where
  "english_summaries disorder =
     filter (\<lambda>s. dict_get (map_of (attrib s)) ''lang'' [] = ''en'')
       (findall disorder [Child ''SummaryInformationList'', Child ''SummaryInformation''])"

definition text_sections :: "element \<Rightarrow> element list" where
  "text_sections summary_info =
     findall summary_info [Child ''TextSectionList'', Child ''TextSection'']"

definition is_definition_section :: "element \<Rightarrow> bool" where
  "is_definition_section text_section =
     (case find_el text_section [Child ''TextSectionType'', ChildWithAttr ''Name'' ''lang'' ''en''] of
        None \<Rightarrow> False
      | Some section_type \<Rightarrow> text_of section_type = Some ''Definition'')"

definition section_contents :: "element \<Rightarrow> string" where
  "section_contents text_section = or_empty (findtext text_section [Child ''Contents''])"

text \<open>A section the inner loop stops at: a definition section with non-empty contents.\<close>

definition definition_with_contents :: "element \<Rightarrow> bool" where
  "definition_with_contents text_section =
     (is_definition_section text_section \<and> section_contents text_section \<noteq> [])"

text \<open>What one English summary entry yields.\<close>

definition entry_definition :: "element \<Rightarrow> string" where
  "entry_definition summary_info =
     (case List.find definition_with_contents (text_sections summary_info) of
        None \<Rightarrow> []
      | Some text_section \<Rightarrow> strip (section_contents text_section))"

definition first_nonempty :: "string list \<Rightarrow> string" where
  "first_nonempty xs = (case List.find (\<lambda>s. s \<noteq> []) xs of None \<Rightarrow> [] | Some s \<Rightarrow> s)"

text \<open>
  The reading under which only the first English summary entry is consulted: the stripped
  contents of its first definition section, the empty string when it has none.
\<close>

definition first_english_entry_definition :: "element \<Rightarrow> string" where
  "first_english_entry_definition disorder =
     (case english_summaries disorder of
        [] \<Rightarrow> []
      | summary_info # _ \<Rightarrow>
          (case List.find is_definition_section (text_sections summary_info) of
             None \<Rightarrow> []
           | Some text_section \<Rightarrow> strip (section_contents text_section)))"




subsection \<open>List-valued feeds\<close>

text \<open>Appending a whole list to a \<^verbatim>\<open>defaultdict(list)\<close> entry; no key is created for no value.\<close>

definition dd_extend :: "('k \<rightharpoonup> 'v list) \<Rightarrow> 'k \<Rightarrow> 'v list \<Rightarrow> ('k \<rightharpoonup> 'v list)" where
  "dd_extend d k vs = (if vs = [] then d else d(k \<mapsto> dict_get d k [] @ vs))"

text \<open>The common shape of the three list-valued extractors, for the entries of one disorder.\<close>

definition feed_step ::
  "(element \<Rightarrow> string list) \<Rightarrow> string list \<Rightarrow> element \<Rightarrow>
   (string \<rightharpoonup> string list) \<Rightarrow> (string \<rightharpoonup> string list)" where
  "feed_step entries orphacodes disorder m =
     (case code_of disorder of
        None \<Rightarrow> m
      | Some code \<Rightarrow> if code \<in> set orphacodes then dd_extend m code (entries disorder) else m)"

definition hpo_frequency :: "element \<Rightarrow> string option" where
  "hpo_frequency assoc =
     findtext assoc [Child ''HPOFrequency'', ChildWithAttr ''Name'' ''lang'' ''en'']"

definition hpo_term :: "element \<Rightarrow> string" where
  "hpo_term assoc = or_empty (findtext assoc [Child ''HPO'', Child ''HPOTerm''])"

definition hpo_id :: "element \<Rightarrow> string" where
  "hpo_id assoc = or_empty (findtext assoc [Child ''HPO'', Child ''HPOId''])"

definition hpo_kept :: "string \<Rightarrow> element \<Rightarrow> bool" where
  "hpo_kept target_freq assoc =
     (hpo_frequency assoc = Some target_freq \<and> hpo_term assoc \<noteq> [] \<and> hpo_id assoc \<noteq> [])"

definition hpo_descriptor :: "element \<Rightarrow> string" where
  "hpo_descriptor assoc = hpo_term assoc @ '' ('' @ hpo_id assoc @ '')''"

definition associations :: "element \<Rightarrow> element list" where
  "associations disorder =
     (case find_el disorder [Child ''HPODisorderAssociationList''] of
        None \<Rightarrow> []
      | Some assoc_list \<Rightarrow> findall assoc_list [Child ''HPODisorderAssociation''])"

definition phenotype_entries :: "string \<Rightarrow> element \<Rightarrow> string list" where
  "phenotype_entries target_freq disorder =
     map hpo_descriptor (filter (hpo_kept target_freq) (associations disorder))"

definition prevalence_val :: "element \<Rightarrow> string" where
  "prevalence_val prev = or_empty (findtext prev [Child ''ValMoy''])"

definition prevalence_class :: "element \<Rightarrow> string" where
  "prevalence_class prev =
     or_empty (findtext prev [Child ''PrevalenceClass'', ChildWithAttr ''Name'' ''lang'' ''en''])"

definition prevalence_source :: "element \<Rightarrow> string" where
  "prevalence_source prev = or_empty (findtext prev [Child ''Source''])"

definition prevalences :: "element \<Rightarrow> element list" where
  "prevalences disorder =
     (case find_el disorder [Child ''PrevalenceList''] of
        None \<Rightarrow> []
      | Some prev_list \<Rightarrow> findall prev_list [Child ''Prevalence''])"

definition prevalence_entries :: "element \<Rightarrow> string list" where
  "prevalence_entries disorder = map prevalence_str (prevalences disorder)"

definition external_references :: "element \<Rightarrow> element list" where
  "external_references disorder =
     (case find_el disorder [Child ''ExternalReferenceList''] of
        None \<Rightarrow> []
      | Some ext_refs \<Rightarrow> findall ext_refs [Child ''ExternalReference''])"

definition ref_source :: "element \<Rightarrow> string option" where
  "ref_source ext_ref = findtext ext_ref [Child ''Source'']"

definition ref_id :: "element \<Rightarrow> string" where
  "ref_id ext_ref = or_empty (findtext ext_ref [Child ''Reference''])"

definition omim_kept :: "element \<Rightarrow> bool" where
  "omim_kept ext_ref = (ref_source ext_ref = Some ''OMIM'' \<and> ref_id ext_ref \<noteq> [])"

definition omim_entries :: "element \<Rightarrow> string list" where
  "omim_entries disorder = map ref_id (filter omim_kept (external_references disorder))"

subsection \<open>The fields of a written line\<close>

definition row_fields :: "merged_row \<Rightarrow> string list" where
  "row_fields r = [OrphaCode r, Definition r, Phenotypes r, Prevalence r, OMIM r]"

section \<open>Sample documents\<close>

definition leaf :: "string \<Rightarrow> string \<Rightarrow> element" where
  "leaf t s = Element t [] (Some s) []"

definition node :: "string \<Rightarrow> element list \<Rightarrow> element" where
  "node t cs = Element t [] None cs"

definition name_en :: "string \<Rightarrow> element" where
  "name_en s = Element ''Name'' [(''lang'', ''en'')] (Some s) []"

definition ex_section :: "string \<Rightarrow> string \<Rightarrow> element" where
  "ex_section ty contents =
     node ''TextSection'' [node ''TextSectionType'' [name_en ty], leaf ''Contents'' contents]"

definition ex_summary :: "string \<Rightarrow> element list \<Rightarrow> element" where
  "ex_summary lang secs =
     Element ''SummaryInformation'' [(''lang'', lang)] None [node ''TextSectionList'' secs]"

definition ex_assoc :: "string \<Rightarrow> string \<Rightarrow> string \<Rightarrow> element" where
  "ex_assoc term hid freq =
     node ''HPODisorderAssociation''
       [node ''HPO'' [leaf ''HPOId'' hid, leaf ''HPOTerm'' term],
        node ''HPOFrequency'' [name_en freq]]"

definition ex_ref :: "string \<Rightarrow> string \<Rightarrow> element" where
  "ex_ref src r = node ''ExternalReference'' [leaf ''Source'' src, leaf ''Reference'' r]"

definition ex_prev :: "string \<Rightarrow> string \<Rightarrow> string \<Rightarrow> element" where
  "ex_prev src cls val =
     node ''Prevalence''
       [leaf ''Source'' src, node ''PrevalenceClass'' [name_en cls], leaf ''ValMoy'' val]"

definition ex_disorder :: "string \<Rightarrow> element list \<Rightarrow> element" where
  "ex_disorder code parts = node ''Disorder'' (leaf ''OrphaCode'' code # parts)"

definition ex_root :: "element list \<Rightarrow> element" where
  "ex_root ds = node ''JDBOR'' [node ''DisorderList'' ds]"

definition very_frequent :: string where
  "very_frequent = ''Very frequent (99-80%)''"

text \<open>A first English block without a definition section, a second one with it.\<close>

definition block_clinical :: element where
  "block_clinical = ex_summary ''en'' [ex_section ''Clinical description'' ''Onset in infancy.'']"

definition block_definition :: element where
  "block_definition = ex_summary ''en'' [ex_section ''Definition'' '' A rare epilepsy. '']"

definition two_block_disorder :: element where
  "two_block_disorder =
     ex_disorder ''166024'' [node ''SummaryInformationList'' [block_clinical, block_definition]]"

text \<open>
  A French block, then an English block whose first definition section is empty and whose
  second is not, then a further English block with a definition.
\<close>

definition three_block_disorder :: element where
  "three_block_disorder =
     ex_disorder ''166024''
       [node ''SummaryInformationList''
          [ex_summary ''fr'' [ex_section ''Definition'' ''Une maladie rare.''],
           ex_summary ''en''
             [node ''TextSection'' [node ''TextSectionType'' [name_en ''Definition''],
                                    node ''Contents'' []],
              ex_section ''Definition'' ''  First.'',
              ex_section ''Definition'' ''Other.''],
           ex_summary ''en'' [ex_section ''Definition'' ''Second.'']]]"

text \<open>
  Definition sections with contents of whitespace only: in the second of two English blocks,
  before a section with a proper definition; and in the first of two English blocks that both
  hold a proper definition.
\<close>

definition block_blank_then_definition :: element where
  "block_blank_then_definition =
     ex_summary ''en'' [ex_section ''Definition'' ''  '', ex_section ''Definition'' ''A rare epilepsy.'']"

definition blank_second_disorder :: element where
  "blank_second_disorder =
     ex_disorder ''166024''
       [node ''SummaryInformationList'' [block_clinical, block_blank_then_definition]]"

definition blank_first_disorder :: element where
  "blank_first_disorder =
     ex_disorder ''166024''
       [node ''SummaryInformationList''
          [ex_summary ''en'' [ex_section ''Definition'' ''  '', ex_section ''Definition'' ''Real.''],
           ex_summary ''en'' [ex_section ''Definition'' ''Second.'']]]"

text \<open>A document in which the code 166024 occurs twice and the code 558 has no sub-structure.\<close>

definition dis_a :: element where
  "dis_a =
     ex_disorder ''166024''
       [node ''SummaryInformationList'' [block_definition],
        node ''HPODisorderAssociationList''
          [ex_assoc ''Seizure'' ''HP:0001250'' very_frequent,
           ex_assoc ''Ataxia'' [] very_frequent,
           ex_assoc ''Nystagmus'' ''HP:0000639'' ''Occasional (29-5%)''],
        node ''PrevalenceList''
          [ex_prev ''12345678[PMID], 87654321[PMID]'' ''1-9 / 100 000'' ''1.5'',
           node ''Prevalence'' []],
        node ''ExternalReferenceList''
          [ex_ref ''OMIM'' ''607596'', ex_ref ''ICD-10'' ''G40.4'', ex_ref ''OMIM'' ''300672'']]"

definition dis_b :: element where
  "dis_b =
     ex_disorder ''166024''
       [node ''HPODisorderAssociationList'' [ex_assoc ''Hypotonia'' ''HP:0001252'' very_frequent],
        node ''PrevalenceList'' [ex_prev [] [] []],
        node ''ExternalReferenceList'' [ex_ref ''OMIM'' ''612164'']]"

definition dis_bare :: element where
  "dis_bare = ex_disorder ''558'' []"

definition ex_doc :: element where
  "ex_doc = ex_root [dis_a, dis_bare, dis_b]"

lemmas ex_defs =
  leaf_def node_def name_en_def ex_section_def ex_summary_def ex_assoc_def ex_ref_def
  ex_prev_def ex_disorder_def ex_root_def very_frequent_def block_clinical_def
  block_definition_def two_block_disorder_def three_block_disorder_def dis_a_def dis_b_def
  dis_bare_def ex_doc_def block_blank_then_definition_def blank_second_disorder_def
  blank_first_disorder_def

lemmas xml_defs =
  findall_def find_el_def findtext_def or_empty_def dict_get_def

section \<open>Lemmas about the loops\<close>

subsection \<open>Appending to a dictionary of lists\<close>

lemma fold_dd_append:
  "fold (\<lambda>x m. if P x then dd_append m k (f x) else m) xs m = dd_extend m k (map f (filter P xs))"
proof (induction xs arbitrary: m)
  case Nil
  show ?case by (simp add: dd_extend_def)
next
  case (Cons x xs)
  show ?case
    by (simp add: Cons.IH) (auto simp: dd_extend_def dd_append_def dict_get_def fun_eq_iff split: option.splits)
qed

lemma dd_extend_lookup:
  "dict_get (dd_extend m k vs) c [] = dict_get m c [] @ (if c = k then vs else [])"
  by (simp add: dd_extend_def dict_get_def)

lemma dd_extend_None:
  "dd_extend m k vs c = None \<longleftrightarrow> m c = None \<and> (c = k \<longrightarrow> vs = [])"
  by (simp add: dd_extend_def)

lemma feed_step_lookup:
  "dict_get (feed_step entries codes d m) c [] =
     dict_get m c [] @ (if c \<in> set codes \<and> code_of d = Some c then entries d else [])"
  by (auto simp: feed_step_def dd_extend_lookup split: option.splits)

lemma feed_fold_lookup:
  "dict_get (fold (feed_step entries codes) ds m) c [] =
     dict_get m c [] @ (if c \<in> set codes then concat (map entries (with_code c ds)) else [])"
proof (induction ds arbitrary: m)
  case Nil
  show ?case by (simp add: with_code_def)
next
  case (Cons d ds)
  show ?case by (simp add: Cons.IH feed_step_lookup with_code_def)
qed

lemma feed_step_None:
  "feed_step entries codes d m c = None \<longleftrightarrow>
     m c = None \<and> (c \<in> set codes \<and> code_of d = Some c \<longrightarrow> entries d = [])"
  by (auto simp: feed_step_def dd_extend_None split: option.splits)

lemma feed_fold_None:
  "fold (feed_step entries codes) ds m c = None \<longleftrightarrow>
     m c = None \<and> (c \<in> set codes \<longrightarrow> concat (map entries (with_code c ds)) = [])"
proof (induction ds arbitrary: m)
  case Nil
  show ?case by (simp add: with_code_def)
next
  case (Cons d ds)
  show ?case by (auto simp add: Cons.IH feed_step_None with_code_def)
qed

subsection \<open>The three list-valued extractors have the common shape\<close>

lemma phenotypes_inner_fold:
  "fold (phenotypes_inner t code) as m = dd_extend m code (map hpo_descriptor (filter (hpo_kept t) as))"
proof -
  have "phenotypes_inner t code = (\<lambda>a m. if hpo_kept t a then dd_append m code (hpo_descriptor a) else m)"
    by (auto simp: phenotypes_inner_def hpo_kept_def hpo_descriptor_def hpo_frequency_def
        hpo_term_def hpo_id_def Let_def fun_eq_iff)
  then show ?thesis by (simp only: fold_dd_append)
qed

lemma phenotypes_step_feed:
  "phenotypes_step t codes = feed_step (phenotype_entries t) codes"
  by (auto simp: phenotypes_step_def feed_step_def code_of_def phenotype_entries_def associations_def
      phenotypes_inner_fold dd_extend_def fun_eq_iff split: option.splits)

lemma prevalence_inner_fold:
  "fold (prevalence_inner code) ps m = dd_extend m code (map prevalence_str ps)"
proof -
  have "prevalence_inner code = (\<lambda>p m. if True then dd_append m code (prevalence_str p) else m)"
    by (simp add: prevalence_inner_def fun_eq_iff)
  then show ?thesis using fold_dd_append [of "\<lambda>_. True" code prevalence_str ps m] by simp
qed

lemma prevalence_step_feed:
  "prevalence_step codes = feed_step prevalence_entries codes"
  by (auto simp: prevalence_step_def feed_step_def code_of_def prevalence_entries_def prevalences_def
      prevalence_inner_fold dd_extend_def fun_eq_iff split: option.splits)

lemma omim_inner_fold:
  "fold (omim_inner code) rs m = dd_extend m code (map ref_id (filter omim_kept rs))"
proof -
  have "omim_inner code = (\<lambda>r m. if omim_kept r then dd_append m code (ref_id r) else m)"
    by (auto simp: omim_inner_def omim_kept_def ref_source_def ref_id_def Let_def fun_eq_iff)
  then show ?thesis by (simp only: fold_dd_append)
qed

lemma omim_step_feed:
  "omim_step codes = feed_step omim_entries codes"
  by (auto simp: omim_step_def feed_step_def code_of_def omim_entries_def external_references_def
      omim_inner_fold dd_extend_def fun_eq_iff split: option.splits)

subsection \<open>The definition loops\<close>

lemma text_section_loop_find:
  "text_section_loop tss d =
     (case List.find definition_with_contents tss of
        None \<Rightarrow> d
      | Some ts \<Rightarrow> strip (section_contents ts))"
  by (induction tss)
     (auto simp: definition_with_contents_def is_definition_section_def section_contents_def
        or_empty_def split: option.splits)

lemma summary_info_loop_first:
  "summary_info_loop sis [] =
     first_nonempty (map entry_definition
       (filter (\<lambda>s. dict_get (map_of (attrib s)) ''lang'' [] = ''en'') sis))"
  by (induction sis)
     (simp_all add: first_nonempty_def entry_definition_def text_sections_def
        text_section_loop_find Let_def)

lemma disorder_definition_first:
  "disorder_definition d = first_nonempty (map entry_definition (english_summaries d))"
  by (simp add: disorder_definition_def english_summaries_def summary_info_loop_first)

lemma definitions_step_lookup:
  "code_of d = Some c \<Longrightarrow> c \<in> set codes \<Longrightarrow>
   definitions_step codes d data c = Some (disorder_definition d)"
  by (simp add: definitions_step_def code_of_def)

lemma first_nonempty_append:
  "\<forall>p \<in> set pre. p = [] \<Longrightarrow> s \<noteq> [] \<Longrightarrow> first_nonempty (pre @ s # post) = s"
  by (induction pre) (simp_all add: first_nonempty_def)

lemma definitions_fold_lookup:
  "fold (definitions_step codes) ds m c =
     (if c \<in> set codes \<and> with_code c ds \<noteq> []
      then Some (disorder_definition (last (with_code c ds))) else m c)"
proof (induction ds arbitrary: m)
  case Nil
  show ?case by (simp add: with_code_def)
next
  case (Cons d ds)
  show ?case
    by (simp add: Cons.IH) (auto simp: definitions_step_def with_code_def code_of_def split: option.splits)
qed

subsection \<open>The result of an extractor, looked up at one code\<close>

lemma dict_get_empty: "dict_get Map.empty k dflt = dflt"
  by (simp add: dict_get_def)

lemma parse_phenotypes_lookup:
  "dict_get (parse_phenotypes root codes t) c [] =
     (if c \<in> set codes then concat (map (phenotype_entries t) (with_code c (disorders root)))
      else [])"
  by (simp add: parse_phenotypes_def phenotypes_step_feed feed_fold_lookup disorders_def
      dict_get_empty)

lemma parse_prevalence_lookup:
  "dict_get (parse_prevalence root codes) c [] =
     (if c \<in> set codes then concat (map prevalence_entries (with_code c (disorders root)))
      else [])"
  by (simp add: parse_prevalence_def prevalence_step_feed feed_fold_lookup disorders_def
      dict_get_empty)

lemma parse_omim_lookup:
  "dict_get (parse_omim root codes) c [] =
     (if c \<in> set codes then concat (map omim_entries (with_code c (disorders root)))
      else [])"
  by (simp add: parse_omim_def omim_step_feed feed_fold_lookup disorders_def dict_get_empty)

lemma parse_definitions_lookup:
  "parse_definitions root codes c =
     (if c \<in> set codes \<and> with_code c (disorders root) \<noteq> []
      then Some (disorder_definition (last (with_code c (disorders root)))) else None)"
  by (simp add: parse_definitions_def definitions_fold_lookup disorders_def)

subsection \<open>The first non-empty definition in document order\<close>









subsection \<open>The last disorder carrying a code\<close>

lemma with_code_last:
  "with_code c xs = ds @ [d] \<Longrightarrow> code_of d = Some c"
proof -
  assume "with_code c xs = ds @ [d]"
  then have "d \<in> set (with_code c xs)" by simp
  then show ?thesis by (simp add: with_code_def)
qed

lemma parse_definitions_last:
  "c \<in> set codes \<Longrightarrow> with_code c (disorders root) = ds @ [d] \<Longrightarrow>
   parse_definitions root codes c = Some (disorder_definition d)"
  by (simp add: parse_definitions_lookup)

lemma dict_get_nonempty: "dict_get m k [] = x # xs \<Longrightarrow> m k = Some (x # xs)"
  by (simp add: dict_get_def split: option.splits)

subsection \<open>The PMID pattern on the sample citation\<close>

lemma pmid_findall_sample:
  "pmid_findall ''12345678[PMID], 87654321[PMID]'' = [''12345678'', ''87654321'']"
  by (simp add: is_digit_def)

section \<open>The definition extractor: which summary entry supplies the definition\<close>

text \<open>
  Claim C2, as the code has it.  For a code of the code set, \<^verbatim>\<open>parse_definitions\<close> returns
  a dictionary that maps the code to the value found in the last disorder of the document
  carrying it, by going through that disorder's summary entries with \<^verbatim>\<open>lang="en"\<close> in
  document order: each entry yields the stripped contents of its first text section whose
  English type name is \<^verbatim>\<open>Definition\<close> and whose contents are non-empty (the empty string
  when it has none), and the stored value is the first non-empty value so yielded, the empty
  string when no English entry yields one.  The search is not confined to the first English
  entry.  The same value is what the loop body stores for that disorder in any dictionary.
\<close>

theorem C2_definition_first_nonempty_entry:
  assumes "c \<in> set orphacodes" and "with_code c (disorders root) = ds @ [d]"
  shows "parse_definitions root orphacodes c =
           Some (first_nonempty (map entry_definition (english_summaries d))) \<and>
         definitions_step orphacodes d data c =
           Some (first_nonempty (map entry_definition (english_summaries d)))"
proof -
  have code: "code_of d = Some c"
    using assms(2) by (rule with_code_last)
  have whole: "parse_definitions root orphacodes c = Some (disorder_definition d)"
    using assms by (rule parse_definitions_last)
  have one: "definitions_step orphacodes d data c = Some (disorder_definition d)"
    using code assms(1) by (rule definitions_step_lookup)
  from whole one show ?thesis by (simp only: disorder_definition_first simp_thms)
qed

text \<open>
  Claim C2, an instance: a French entry is passed over, an empty definition section is passed
  over, and the first English entry supplies \<^verbatim>\<open>First.\<close> although later sections and
  entries hold definitions too.
\<close>

theorem C2_definition_first_nonempty_entry_witness:
  "''166024'' \<in> set [''166024'', ''558''] \<and>
   with_code ''166024'' (disorders (ex_root [dis_bare, three_block_disorder])) =
     [] @ [three_block_disorder] \<and>
   parse_definitions (ex_root [dis_bare, three_block_disorder]) [''166024'', ''558''] ''166024'' =
     Some ''First.'' \<and>
   definitions_step [''166024'', ''558''] three_block_disorder Map.empty ''166024'' = Some ''First.''"
proof -
  have h1: "''166024'' \<in> set [''166024'', ''558'']" by simp
  have h2: "with_code ''166024'' (disorders (ex_root [dis_bare, three_block_disorder])) =
      [] @ [three_block_disorder]"
    by (simp add: with_code_def disorders_def code_of_def ex_defs xml_defs)
  have v: "first_nonempty (map entry_definition (english_summaries three_block_disorder)) = ''First.''"
    by (simp add: first_nonempty_def entry_definition_def english_summaries_def text_sections_def
        definition_with_contents_def is_definition_section_def section_contents_def
        ex_defs xml_defs strip_def is_space_def)
  from C2_definition_first_nonempty_entry [OF h1 h2, of Map.empty] h1 h2 v
  show ?thesis by simp
qed

text \<open>
  Claim C2 as it is worded fails: the disorder below has two English entries, the first of
  them without any definition section.  Confined to the first English entry the result
  would be empty; \<^verbatim>\<open>parse_definitions\<close> returns the definition of the second entry.
\<close>

theorem C2_first_entry_only_counterexample:
  "with_code ''166024'' (disorders (ex_root [two_block_disorder])) = [two_block_disorder] \<and>
   english_summaries two_block_disorder = [block_clinical, block_definition] \<and>
   List.find is_definition_section (text_sections block_clinical) = None \<and>
   first_english_entry_definition two_block_disorder = [] \<and>
   parse_definitions (ex_root [two_block_disorder]) [''166024''] ''166024'' = Some ''A rare epilepsy.''"
proof -
  have w: "with_code ''166024'' (disorders (ex_root [two_block_disorder])) = [two_block_disorder]"
    by (simp add: with_code_def disorders_def code_of_def ex_defs xml_defs)
  have e: "english_summaries two_block_disorder = [block_clinical, block_definition]"
    by (simp add: english_summaries_def ex_defs xml_defs)
  have f: "List.find is_definition_section (text_sections block_clinical) = None"
    by (simp add: text_sections_def is_definition_section_def ex_defs xml_defs)
  have g: "first_english_entry_definition two_block_disorder = []"
    by (simp add: first_english_entry_definition_def e f)
  have p: "parse_definitions (ex_root [two_block_disorder]) [''166024''] ''166024'' =
      Some ''A rare epilepsy.''"
    by (simp add: parse_definitions_def definitions_step_def disorder_definition_def
        ex_defs xml_defs strip_def is_space_def)
  from w e f g p show ?thesis by (simp only: simp_thms)
qed




section \<open>Properties of the record merger\<close>

text \<open>
  Claim C1.  The code set is given by the sequence \<open>C\<close> in which it is iterated, which has no
  repetition.  Both mergers then produce exactly \<open>|C|\<close> records, one per code in the order of
  \<open>C\<close>; the definition field of a record is the stored definition, empty when the code is
  absent from the definition map, and each of the phenotype, prevalence and OMIM fields is
  the \<^verbatim>\<open>"; "\<close>-join of the code's sequence, empty when the code is absent from that map.
\<close>

theorem C1_merged_records:
  assumes "distinct C"
  shows "length (save_combined_tsv_lines D P V M C) = card (set C) \<and>
         length (save_combined_csv_rows D P V M C) = card (set C) \<and>
         save_combined_tsv_lines D P V M C =
           map (\<lambda>c. [c,
                      (case D c of None \<Rightarrow> [] | Some d \<Rightarrow> d),
                      (case P c of None \<Rightarrow> [] | Some xs \<Rightarrow> join ''; '' xs),
                      (case V c of None \<Rightarrow> [] | Some xs \<Rightarrow> join ''; '' xs),
                      (case M c of None \<Rightarrow> [] | Some xs \<Rightarrow> join ''; '' xs)]) C \<and>
         save_combined_csv_rows D P V M C =
           map (\<lambda>c. \<lparr>OrphaCode = c,
                      Definition = (case D c of None \<Rightarrow> [] | Some d \<Rightarrow> d),
                      Phenotypes = (case P c of None \<Rightarrow> [] | Some xs \<Rightarrow> join ''; '' xs),
                      Prevalence = (case V c of None \<Rightarrow> [] | Some xs \<Rightarrow> join ''; '' xs),
                      OMIM = (case M c of None \<Rightarrow> [] | Some xs \<Rightarrow> join ''; '' xs)\<rparr>) C"
proof -
  have card: "card (set C) = length C"
    using assms by (rule distinct_card)
  have field: "\<And>X c. join ''; '' (dict_get X c []) =
      (case X c of None \<Rightarrow> [] | Some xs \<Rightarrow> join ''; '' xs)"
    by (simp add: dict_get_def split: option.splits)
  have dfn: "\<And>c. dict_get D c [] = (case D c of None \<Rightarrow> [] | Some d \<Rightarrow> d)"
    by (simp add: dict_get_def)
  have tsv: "length (save_combined_tsv_lines D P V M C) = length C"
    by (simp add: save_combined_tsv_lines_def)
  have csv: "length (save_combined_csv_rows D P V M C) = length C"
    by (simp add: save_combined_csv_rows_def)
  have tsv_eq: "save_combined_tsv_lines D P V M C =
           map (\<lambda>c. [c,
                      (case D c of None \<Rightarrow> [] | Some d \<Rightarrow> d),
                      (case P c of None \<Rightarrow> [] | Some xs \<Rightarrow> join ''; '' xs),
                      (case V c of None \<Rightarrow> [] | Some xs \<Rightarrow> join ''; '' xs),
                      (case M c of None \<Rightarrow> [] | Some xs \<Rightarrow> join ''; '' xs)]) C"
    unfolding save_combined_tsv_lines_def field dfn ..
  have csv_eq: "save_combined_csv_rows D P V M C =
           map (\<lambda>c. \<lparr>OrphaCode = c,
                      Definition = (case D c of None \<Rightarrow> [] | Some d \<Rightarrow> d),
                      Phenotypes = (case P c of None \<Rightarrow> [] | Some xs \<Rightarrow> join ''; '' xs),
                      Prevalence = (case V c of None \<Rightarrow> [] | Some xs \<Rightarrow> join ''; '' xs),
                      OMIM = (case M c of None \<Rightarrow> [] | Some xs \<Rightarrow> join ''; '' xs)\<rparr>) C"
    unfolding save_combined_csv_rows_def field dfn ..
  from card tsv csv tsv_eq csv_eq show ?thesis by (simp only: simp_thms)
qed

text \<open>
  Claim C1, an instance: two codes, the first absent from all four maps, the second present
  in two of them.
\<close>

theorem C1_merged_records_witness:
  "distinct [''558'', ''166024''] \<and>
   save_combined_csv_rows Map.empty [''166024'' \<mapsto> [''Seizure (HP:0001250)'', ''Hypotonia (HP:0001252)'']]
       Map.empty [''166024'' \<mapsto> [''607596'']] [''558'', ''166024''] =
     [\<lparr>OrphaCode = ''558'', Definition = [], Phenotypes = [], Prevalence = [], OMIM = []\<rparr>,
      \<lparr>OrphaCode = ''166024'', Definition = [],
       Phenotypes = ''Seizure (HP:0001250); Hypotonia (HP:0001252)'', Prevalence = [],
       OMIM = ''607596''\<rparr>] \<and>
   save_combined_tsv_lines Map.empty [''166024'' \<mapsto> [''Seizure (HP:0001250)'', ''Hypotonia (HP:0001252)'']]
       Map.empty [''166024'' \<mapsto> [''607596'']] [''558'', ''166024''] =
     [[''558'', [], [], [], []],
      [''166024'', [], ''Seizure (HP:0001250); Hypotonia (HP:0001252)'', [], ''607596'']] \<and>
   length (save_combined_csv_rows Map.empty
       [''166024'' \<mapsto> [''Seizure (HP:0001250)'', ''Hypotonia (HP:0001252)'']]
       Map.empty [''166024'' \<mapsto> [''607596'']] [''558'', ''166024'']) =
     card (set [''558'', ''166024''])"
proof -
  have h: "distinct [''558'', ''166024'']" by simp
  from C1_merged_records [OF h, of Map.empty
      "[''166024'' \<mapsto> [''Seizure (HP:0001250)'', ''Hypotonia (HP:0001252)'']]"
      Map.empty "[''166024'' \<mapsto> [''607596'']]"] h
  show ?thesis by simp
qed

text \<open>
  Claim C8.  The row dictionaries built by \<^verbatim>\<open>save_combined_csv\<close> of
  \<^verbatim>\<open>update_datasets.py\<close> carry, code by code, the same five field values as the lines built
  by \<^verbatim>\<open>save_combined_tsv\<close> of \<^verbatim>\<open>update.py\<close>.
\<close>

theorem C8_tsv_and_csv_fields_agree:
  "map row_fields (save_combined_csv_rows defs phenos prevs omims orphacodes) =
     save_combined_tsv_lines defs phenos prevs omims orphacodes"
  by (simp add: save_combined_csv_rows_def save_combined_tsv_lines_def row_fields_def)

section \<open>Properties of the prevalence extractor\<close>

text \<open>
  Claim C4.  Take any prevalence entry among those of the disorders carrying a code of the
  code set, with the source text \<^verbatim>\<open>12345678[PMID], 87654321[PMID]\<close>.  The pattern finds the
  two identifiers in their order, and the entry's descriptor is the mean value, the
  parenthesised class name when there is one, a separating space and then
  \<^verbatim>\<open>(PMID:12345678,87654321)\<close>.  The list that \<^verbatim>\<open>parse_prevalence\<close> returns for the code
  holds this descriptor at the entry's position, between the descriptors of the entries
  before and after it; it is also what one pass of the inner loop appends.
\<close>

theorem C4_pmid_suffix:
  assumes "c \<in> set orphacodes"
    and "concat (map prevalences (with_code c (disorders root))) = before @ prev # after"
    and "findtext prev [Child ''Source''] = Some ''12345678[PMID], 87654321[PMID]''"
  shows "pmid_findall (prevalence_source prev) = [''12345678'', ''87654321''] \<and>
         prevalence_str prev =
           (prevalence_val prev @
            (if prevalence_class prev \<noteq> [] then '' ('' @ prevalence_class prev @ '')'' else []) @
            '' '') @ ''(PMID:12345678,87654321)'' \<and>
         prevalence_inner code prev prev_data =
           dd_append prev_data code
             ((prevalence_val prev @
               (if prevalence_class prev \<noteq> [] then '' ('' @ prevalence_class prev @ '')'' else []) @
               '' '') @ ''(PMID:12345678,87654321)'') \<and>
         parse_prevalence root orphacodes c =
           Some (map prevalence_str before @
                 ((prevalence_val prev @
                   (if prevalence_class prev \<noteq> [] then '' ('' @ prevalence_class prev @ '')'' else []) @
                   '' '') @ ''(PMID:12345678,87654321)'') #
                 map prevalence_str after)"
proof -
  have src: "prevalence_source prev = ''12345678[PMID], 87654321[PMID]''"
    using assms(3) by (simp add: prevalence_source_def or_empty_def)
  have pm: "pmid_findall (prevalence_source prev) = [''12345678'', ''87654321'']"
    by (simp only: src pmid_findall_sample)
  have str: "prevalence_str prev =
           (prevalence_val prev @
            (if prevalence_class prev \<noteq> [] then '' ('' @ prevalence_class prev @ '')'' else []) @
            '' '') @ ''(PMID:12345678,87654321)''"
    using pm
    by (simp add: prevalence_str_def Let_def prevalence_val_def prevalence_class_def
        prevalence_source_def)
  have entries: "prevalence_entries = (\<lambda>d. map prevalence_str (prevalences d))"
    by (simp add: prevalence_entries_def fun_eq_iff)
  have "concat (map prevalence_entries (with_code c (disorders root))) =
      map prevalence_str (concat (map prevalences (with_code c (disorders root))))"
    by (simp add: map_concat entries comp_def)
  then have "dict_get (parse_prevalence root orphacodes) c [] =
      map prevalence_str before @ prevalence_str prev # map prevalence_str after"
    using assms(1,2) by (simp add: parse_prevalence_lookup)
  then have "parse_prevalence root orphacodes c =
      Some (map prevalence_str before @ prevalence_str prev # map prevalence_str after)"
    by (cases "map prevalence_str before") (simp_all add: dict_get_nonempty)
  then have whole: "parse_prevalence root orphacodes c =
           Some (map prevalence_str before @
                 ((prevalence_val prev @
                   (if prevalence_class prev \<noteq> [] then '' ('' @ prevalence_class prev @ '')'' else []) @
                   '' '') @ ''(PMID:12345678,87654321)'') #
                 map prevalence_str after)"
    by (simp only: str)
  from pm str whole show ?thesis by (simp only: prevalence_inner_def simp_thms)
qed

text \<open>
  Claim C4, an instance: the first prevalence entry of the sample document, with a mean value
  and a class name, followed by two empty entries.
\<close>

theorem C4_pmid_suffix_witness:
  "''166024'' \<in> set [''166024'', ''558''] \<and>
   concat (map prevalences (with_code ''166024'' (disorders ex_doc))) =
     [] @ ex_prev ''12345678[PMID], 87654321[PMID]'' ''1-9 / 100 000'' ''1.5'' #
     [node ''Prevalence'' [], ex_prev [] [] []] \<and>
   findtext (ex_prev ''12345678[PMID], 87654321[PMID]'' ''1-9 / 100 000'' ''1.5'') [Child ''Source'']
     = Some ''12345678[PMID], 87654321[PMID]'' \<and>
   prevalence_str (ex_prev ''12345678[PMID], 87654321[PMID]'' ''1-9 / 100 000'' ''1.5'')
     = ''1.5 (1-9 / 100 000) (PMID:12345678,87654321)'' \<and>
   prevalence_inner ''166024'' (ex_prev ''12345678[PMID], 87654321[PMID]'' ''1-9 / 100 000'' ''1.5'')
       Map.empty ''166024''
     = Some [''1.5 (1-9 / 100 000) (PMID:12345678,87654321)''] \<and>
   parse_prevalence ex_doc [''166024'', ''558''] ''166024''
     = Some [''1.5 (1-9 / 100 000) (PMID:12345678,87654321)'', [], []]"
proof -
  let ?p = "ex_prev ''12345678[PMID], 87654321[PMID]'' ''1-9 / 100 000'' ''1.5''"
  have h1: "''166024'' \<in> set [''166024'', ''558'']" by simp
  have h2: "concat (map prevalences (with_code ''166024'' (disorders ex_doc))) =
      [] @ ?p # [node ''Prevalence'' [], ex_prev [] [] []]"
    by (simp add: prevalences_def with_code_def disorders_def code_of_def ex_defs xml_defs)
  have h: "findtext ?p [Child ''Source''] = Some ''12345678[PMID], 87654321[PMID]''"
    by (simp add: ex_defs xml_defs)
  have v: "prevalence_val ?p = ''1.5''"
    by (simp add: prevalence_val_def ex_defs xml_defs)
  have c: "prevalence_class ?p = ''1-9 / 100 000''"
    by (simp add: prevalence_class_def ex_defs xml_defs)
  have e1: "prevalence_str (node ''Prevalence'' []) = []"
    by (simp add: prevalence_str_def ex_defs xml_defs)
  have e2: "prevalence_str (ex_prev [] [] []) = []"
    by (simp add: prevalence_str_def ex_defs xml_defs)
  from C4_pmid_suffix [OF h1 h2 h, of "''166024''" Map.empty] h1 h2 h v c e1 e2
  show ?thesis by (simp add: dd_append_def)
qed

text \<open>
  Claim C10.  Every \<^verbatim>\<open>Prevalence\<close> element of a retained disorder adds exactly one
  descriptor: the list stored for a code is the list of the descriptors of all prevalence
  elements of its disorders, none left out.  An element whose mean value, class name and
  source text are all empty or missing adds the empty string, and the merged prevalence
  field of the sample document has empty items between its separators.
\<close>

theorem C10_one_descriptor_per_prevalence:
  "dict_get (parse_prevalence root orphacodes) c [] =
     (if c \<in> set orphacodes
      then concat (map (\<lambda>d. map prevalence_str (prevalences d)) (with_code c (disorders root)))
      else []) \<and>
   dict_get (fold (prevalence_inner code) prevs prev_data) code [] =
     dict_get prev_data code [] @ map prevalence_str prevs \<and>
   (prevalence_val prev = [] \<and> prevalence_class prev = [] \<and> prevalence_source prev = [] \<longrightarrow>
      prevalence_str prev = [] \<and>
      prevalence_inner code prev prev_data = dd_append prev_data code []) \<and>
   map Prevalence
     (save_combined_csv_rows Map.empty Map.empty (parse_prevalence ex_doc [''166024''])
        Map.empty [''166024'']) =
     [''1.5 (1-9 / 100 000) (PMID:12345678,87654321); ; '']"
proof -
  have entries: "prevalence_entries = (\<lambda>d. map prevalence_str (prevalences d))"
    by (simp add: prevalence_entries_def fun_eq_iff)
  have a: "dict_get (parse_prevalence root orphacodes) c [] =
     (if c \<in> set orphacodes
      then concat (map (\<lambda>d. map prevalence_str (prevalences d)) (with_code c (disorders root)))
      else [])"
    by (simp only: parse_prevalence_lookup entries)
  have b: "dict_get (fold (prevalence_inner code) prevs prev_data) code [] =
     dict_get prev_data code [] @ map prevalence_str prevs"
    by (simp add: prevalence_inner_fold dd_extend_lookup)
  have c: "prevalence_val prev = [] \<and> prevalence_class prev = [] \<and> prevalence_source prev = [] \<longrightarrow>
      prevalence_str prev = [] \<and>
      prevalence_inner code prev prev_data = dd_append prev_data code []"
    by (simp add: prevalence_inner_def prevalence_str_def prevalence_val_def
        prevalence_class_def prevalence_source_def Let_def)
  have w: "with_code ''166024'' (disorders ex_doc) = [dis_a, dis_b]"
    by (simp add: with_code_def disorders_def code_of_def ex_defs xml_defs)
  have va: "prevalence_entries dis_a = [''1.5 (1-9 / 100 000) (PMID:12345678,87654321)'', []]"
    by (simp add: prevalence_entries_def prevalences_def prevalence_str_def is_digit_def
        ex_defs xml_defs)
  have vb: "prevalence_entries dis_b = [[]]"
    by (simp add: prevalence_entries_def prevalences_def prevalence_str_def ex_defs xml_defs)
  have g: "dict_get (parse_prevalence ex_doc [''166024'']) ''166024'' [] =
      [''1.5 (1-9 / 100 000) (PMID:12345678,87654321)'', [], []]"
    by (simp add: parse_prevalence_lookup w va vb)
  have d: "map Prevalence
     (save_combined_csv_rows Map.empty Map.empty (parse_prevalence ex_doc [''166024''])
        Map.empty [''166024'']) =
     [''1.5 (1-9 / 100 000) (PMID:12345678,87654321); ; '']"
    by (simp add: save_combined_csv_rows_def g)
  from a b c d show ?thesis by (simp only: simp_thms)
qed

text \<open>
  Claim C10, an instance: a prevalence element without children and one whose children are
  all empty.
\<close>

theorem C10_one_descriptor_per_prevalence_witness:
  "prevalence_val (node ''Prevalence'' []) = [] \<and>
   prevalence_class (node ''Prevalence'' []) = [] \<and>
   prevalence_source (node ''Prevalence'' []) = [] \<and>
   prevalence_str (node ''Prevalence'' []) = [] \<and>
   prevalence_str (ex_prev [] [] []) = [] \<and>
   prevalence_inner ''166024'' (node ''Prevalence'' []) Map.empty = [''166024'' \<mapsto> [[]]] \<and>
   dict_get (fold (prevalence_inner ''166024'') [node ''Prevalence'' [], ex_prev [] [] []] Map.empty)
     ''166024'' [] = [[], []]"
proof -
  let ?p = "node ''Prevalence'' []"
  let ?q = "ex_prev [] [] []"
  have v: "prevalence_val ?p = []" by (simp add: prevalence_val_def ex_defs xml_defs)
  have c: "prevalence_class ?p = []" by (simp add: prevalence_class_def ex_defs xml_defs)
  have s: "prevalence_source ?p = []" by (simp add: prevalence_source_def ex_defs xml_defs)
  have v': "prevalence_val ?q = []" by (simp add: prevalence_val_def ex_defs xml_defs)
  have c': "prevalence_class ?q = []" by (simp add: prevalence_class_def ex_defs xml_defs)
  have s': "prevalence_source ?q = []" by (simp add: prevalence_source_def ex_defs xml_defs)
  note t = C10_one_descriptor_per_prevalence [of ex_doc "[''166024'']" "''166024''" "''166024''"
      "[?p, ?q]" Map.empty ?p]
  note t' = C10_one_descriptor_per_prevalence [of ex_doc "[''166024'']" "''166024''" "''166024''"
      "[?p, ?q]" Map.empty ?q]
  from t t' v c s v' c' s' show ?thesis by (simp add: dd_append_def dict_get_empty)
qed

section \<open>Properties of the phenotype extractor\<close>

text \<open>
  Claim C5.  The list stored for a code consists of the descriptors of exactly those
  associations, in document order, whose English frequency name equals the target frequency
  and whose HPO term and HPO id are both non-empty.  The loop body appends for such an
  association and leaves the dictionary as it is otherwise; an association with an empty HPO
  id is never appended.
\<close>

theorem C5_phenotype_filter:
  "dict_get (parse_phenotypes root orphacodes target_freq) c [] =
     (if c \<in> set orphacodes
      then concat (map (\<lambda>d. map hpo_descriptor
                               (filter (\<lambda>a. hpo_frequency a = Some target_freq \<and>
                                             hpo_term a \<noteq> [] \<and> hpo_id a \<noteq> [])
                                  (associations d)))
                     (with_code c (disorders root)))
      else []) \<and>
   phenotypes_inner target_freq code assoc phenos =
     (if hpo_frequency assoc = Some target_freq \<and> hpo_term assoc \<noteq> [] \<and> hpo_id assoc \<noteq> []
      then dd_append phenos code (hpo_term assoc @ '' ('' @ hpo_id assoc @ '')'')
      else phenos) \<and>
   (hpo_id assoc = [] \<longrightarrow> phenotypes_inner target_freq code assoc phenos = phenos)"
proof -
  have kept: "hpo_kept target_freq = (\<lambda>a. hpo_frequency a = Some target_freq \<and>
      hpo_term a \<noteq> [] \<and> hpo_id a \<noteq> [])"
    by (simp add: hpo_kept_def fun_eq_iff)
  have entries: "phenotype_entries target_freq = (\<lambda>d. map hpo_descriptor
      (filter (\<lambda>a. hpo_frequency a = Some target_freq \<and> hpo_term a \<noteq> [] \<and> hpo_id a \<noteq> [])
         (associations d)))"
    by (simp add: phenotype_entries_def kept fun_eq_iff)
  have a: "dict_get (parse_phenotypes root orphacodes target_freq) c [] =
     (if c \<in> set orphacodes
      then concat (map (\<lambda>d. map hpo_descriptor
                               (filter (\<lambda>a. hpo_frequency a = Some target_freq \<and>
                                             hpo_term a \<noteq> [] \<and> hpo_id a \<noteq> [])
                                  (associations d)))
                     (with_code c (disorders root)))
      else [])"
    by (simp only: parse_phenotypes_lookup entries)
  have b: "phenotypes_inner target_freq code assoc phenos =
     (if hpo_frequency assoc = Some target_freq \<and> hpo_term assoc \<noteq> [] \<and> hpo_id assoc \<noteq> []
      then dd_append phenos code (hpo_term assoc @ '' ('' @ hpo_id assoc @ '')'')
      else phenos)"
    by (simp add: phenotypes_inner_def Let_def hpo_frequency_def hpo_term_def hpo_id_def)
  have c: "hpo_id assoc = [] \<longrightarrow> phenotypes_inner target_freq code assoc phenos = phenos"
    by (simp add: b)
  from a b c show ?thesis by (simp only: simp_thms)
qed

text \<open>
  Claim C5, an instance: an association with a term, the target frequency and an empty HPO
  id is left out, while its neighbour with an id is kept.
\<close>

theorem C5_phenotype_filter_witness:
  "hpo_id (ex_assoc ''Ataxia'' [] very_frequent) = [] \<and>
   hpo_term (ex_assoc ''Ataxia'' [] very_frequent) = ''Ataxia'' \<and>
   hpo_frequency (ex_assoc ''Ataxia'' [] very_frequent) = Some very_frequent \<and>
   phenotypes_inner very_frequent ''166024'' (ex_assoc ''Ataxia'' [] very_frequent) Map.empty
     = Map.empty \<and>
   dict_get (parse_phenotypes (ex_root [dis_a]) [''166024'', ''558''] very_frequent) ''166024'' []
     = [''Seizure (HP:0001250)'']"
proof -
  let ?a = "ex_assoc ''Ataxia'' [] very_frequent"
  have i: "hpo_id ?a = []" by (simp add: hpo_id_def ex_defs xml_defs)
  have t: "hpo_term ?a = ''Ataxia''" by (simp add: hpo_term_def ex_defs xml_defs)
  have f: "hpo_frequency ?a = Some very_frequent" by (simp add: hpo_frequency_def ex_defs xml_defs)
  have w: "with_code ''166024'' (disorders (ex_root [dis_a])) = [dis_a]"
    by (simp add: with_code_def disorders_def code_of_def ex_defs xml_defs)
  have e: "map hpo_descriptor
      (filter (\<lambda>a. hpo_frequency a = Some very_frequent \<and> hpo_term a \<noteq> [] \<and> hpo_id a \<noteq> [])
         (associations dis_a)) = [''Seizure (HP:0001250)'']"
    by (simp add: associations_def hpo_descriptor_def hpo_frequency_def hpo_term_def hpo_id_def
        ex_defs xml_defs)
  from C5_phenotype_filter [of "ex_root [dis_a]" "[''166024'', ''558'']" very_frequent
      "''166024''" "''166024''" ?a Map.empty] i t f w e
  show ?thesis by simp
qed

section \<open>Properties of the OMIM extractor\<close>

text \<open>
  Claim C6.  The list stored for a code consists of the reference ids of exactly those
  external references, in document order, whose source is the literal \<^verbatim>\<open>OMIM\<close> and whose
  reference is non-empty; for a code carried by one disorder these are the references of
  that disorder's list.
\<close>

theorem C6_omim_references:
  "dict_get (parse_omim root orphacodes) c [] =
     (if c \<in> set orphacodes
      then concat (map (\<lambda>d. map ref_id
                               (filter (\<lambda>r. ref_source r = Some ''OMIM'' \<and> ref_id r \<noteq> [])
                                  (external_references d)))
                     (with_code c (disorders root)))
      else []) \<and>
   (c \<in> set orphacodes \<and> with_code c (disorders root) = [d] \<longrightarrow>
      dict_get (parse_omim root orphacodes) c [] =
        map ref_id (filter (\<lambda>r. ref_source r = Some ''OMIM'' \<and> ref_id r \<noteq> [])
                      (external_references d)))"
proof -
  have kept: "omim_kept = (\<lambda>r. ref_source r = Some ''OMIM'' \<and> ref_id r \<noteq> [])"
    by (simp add: omim_kept_def fun_eq_iff)
  have entries: "omim_entries = (\<lambda>d. map ref_id
      (filter (\<lambda>r. ref_source r = Some ''OMIM'' \<and> ref_id r \<noteq> []) (external_references d)))"
    by (simp add: omim_entries_def kept fun_eq_iff)
  have a: "dict_get (parse_omim root orphacodes) c [] =
     (if c \<in> set orphacodes
      then concat (map (\<lambda>d. map ref_id
                               (filter (\<lambda>r. ref_source r = Some ''OMIM'' \<and> ref_id r \<noteq> [])
                                  (external_references d)))
                     (with_code c (disorders root)))
      else [])"
    by (simp only: parse_omim_lookup entries)
  show ?thesis by (simp add: a)
qed

text \<open>Claim C6, an instance: a list with two OMIM references around an ICD-10 reference.\<close>

theorem C6_omim_references_witness:
  "''166024'' \<in> set [''166024'', ''558''] \<and>
   with_code ''166024'' (disorders (ex_root [dis_bare, dis_a])) = [dis_a] \<and>
   map ref_source (external_references dis_a) = [Some ''OMIM'', Some ''ICD-10'', Some ''OMIM''] \<and>
   dict_get (parse_omim (ex_root [dis_bare, dis_a]) [''166024'', ''558'']) ''166024'' []
     = [''607596'', ''300672'']"
proof -
  have h: "''166024'' \<in> set [''166024'', ''558'']" by simp
  have w: "with_code ''166024'' (disorders (ex_root [dis_bare, dis_a])) = [dis_a]"
    by (simp add: with_code_def disorders_def code_of_def ex_defs xml_defs)
  have s: "map ref_source (external_references dis_a) = [Some ''OMIM'', Some ''ICD-10'', Some ''OMIM'']"
    by (simp add: external_references_def ref_source_def ex_defs xml_defs)
  have e: "map ref_id (filter (\<lambda>r. ref_source r = Some ''OMIM'' \<and> ref_id r \<noteq> [])
      (external_references dis_a)) = [''607596'', ''300672'']"
    by (simp add: external_references_def ref_source_def ref_id_def ex_defs xml_defs)
  from C6_omim_references [of "ex_root [dis_bare, dis_a]" "[''166024'', ''558'']" "''166024''" dis_a]
    h w s e
  show ?thesis by simp
qed

section \<open>Missing sub-structures and repeated codes\<close>

text \<open>
  Claim C7.  A disorder without an association list, without a prevalence list or without
  an external-reference list leaves the dictionary of the corresponding extractor unchanged,
  and the run over the disorders gives the same result as the run without that disorder.
  The loops have no failing branch: every lookup that may find nothing is guarded.
\<close>

theorem C7_missing_substructure:
  "(find_el d [Child ''HPODisorderAssociationList''] = None \<longrightarrow>
      phenotypes_step target_freq orphacodes d m = m \<and>
      fold (phenotypes_step target_freq orphacodes) (pre @ d # post) m =
        fold (phenotypes_step target_freq orphacodes) (pre @ post) m) \<and>
   (find_el d [Child ''PrevalenceList''] = None \<longrightarrow>
      prevalence_step orphacodes d m = m \<and>
      fold (prevalence_step orphacodes) (pre @ d # post) m =
        fold (prevalence_step orphacodes) (pre @ post) m) \<and>
   (find_el d [Child ''ExternalReferenceList''] = None \<longrightarrow>
      omim_step orphacodes d m = m \<and>
      fold (omim_step orphacodes) (pre @ d # post) m =
        fold (omim_step orphacodes) (pre @ post) m)"
proof (intro conjI impI)
  assume a: "find_el d [Child ''HPODisorderAssociationList''] = None"
  then show s: "phenotypes_step target_freq orphacodes d m = m" for m
    by (simp add: phenotypes_step_def split: option.splits)
  show "fold (phenotypes_step target_freq orphacodes) (pre @ d # post) m =
        fold (phenotypes_step target_freq orphacodes) (pre @ post) m"
    by (simp add: s)
next
  assume a: "find_el d [Child ''PrevalenceList''] = None"
  then show s: "prevalence_step orphacodes d m = m" for m
    by (simp add: prevalence_step_def split: option.splits)
  show "fold (prevalence_step orphacodes) (pre @ d # post) m =
        fold (prevalence_step orphacodes) (pre @ post) m"
    by (simp add: s)
next
  assume a: "find_el d [Child ''ExternalReferenceList''] = None"
  then show s: "omim_step orphacodes d m = m" for m
    by (simp add: omim_step_def split: option.splits)
  show "fold (omim_step orphacodes) (pre @ d # post) m =
        fold (omim_step orphacodes) (pre @ post) m"
    by (simp add: s)
qed

text \<open>
  Claim C7, an instance: a retained disorder that has nothing but its code, between two
  disorders of another code.
\<close>

theorem C7_missing_substructure_witness:
  "code_of dis_bare = Some ''558'' \<and> ''558'' \<in> set [''166024'', ''558''] \<and>
   find_el dis_bare [Child ''HPODisorderAssociationList''] = None \<and>
   find_el dis_bare [Child ''PrevalenceList''] = None \<and>
   find_el dis_bare [Child ''ExternalReferenceList''] = None \<and>
   fold (phenotypes_step very_frequent [''166024'', ''558'']) ([dis_a] @ dis_bare # [dis_b]) Map.empty =
     fold (phenotypes_step very_frequent [''166024'', ''558'']) ([dis_a] @ [dis_b]) Map.empty \<and>
   fold (prevalence_step [''166024'', ''558'']) ([dis_a] @ dis_bare # [dis_b]) Map.empty =
     fold (prevalence_step [''166024'', ''558'']) ([dis_a] @ [dis_b]) Map.empty \<and>
   fold (omim_step [''166024'', ''558'']) ([dis_a] @ dis_bare # [dis_b]) Map.empty =
     fold (omim_step [''166024'', ''558'']) ([dis_a] @ [dis_b]) Map.empty \<and>
   parse_omim ex_doc [''166024'', ''558''] ''558'' = None \<and>
   parse_omim ex_doc [''166024'', ''558''] ''166024'' = Some [''607596'', ''300672'', ''612164'']"
proof -
  have c: "code_of dis_bare = Some ''558''" by (simp add: code_of_def ex_defs xml_defs)
  have h1: "find_el dis_bare [Child ''HPODisorderAssociationList''] = None"
    by (simp add: ex_defs xml_defs)
  have h2: "find_el dis_bare [Child ''PrevalenceList''] = None"
    by (simp add: ex_defs xml_defs)
  have h3: "find_el dis_bare [Child ''ExternalReferenceList''] = None"
    by (simp add: ex_defs xml_defs)
  have d: "findall ex_doc [Descendant ''Disorder''] = [dis_a] @ dis_bare # [dis_b]"
    by (simp add: ex_defs xml_defs)
  have a: "omim_step [''166024'', ''558''] dis_a Map.empty = [''166024'' \<mapsto> [''607596'', ''300672'']]"
    by (simp add: omim_step_def omim_inner_def dd_append_def ex_defs xml_defs)
  have b: "omim_step [''166024'', ''558''] dis_b [''166024'' \<mapsto> [''607596'', ''300672'']]
      = [''166024'' \<mapsto> [''607596'', ''300672'', ''612164'']]"
    by (simp add: omim_step_def omim_inner_def dd_append_def ex_defs xml_defs)
  note t = C7_missing_substructure [of dis_bare very_frequent "[''166024'', ''558'']" Map.empty
      "[dis_a]" "[dis_b]"]
  have o: "parse_omim ex_doc [''166024'', ''558''] = [''166024'' \<mapsto> [''607596'', ''300672'', ''612164'']]"
    unfolding parse_omim_def d using t h3 by (simp add: a b)
  from t c h1 h2 h3 o show ?thesis by simp
qed

text \<open>
  Claim C9.  When exactly two disorders of the document carry the same code of the code set,
  the definition stored for the code is that of the later disorder, whatever the earlier one
  gave, while the phenotype, prevalence and OMIM lists are the entries of the earlier
  disorder followed by those of the later one.
\<close>

theorem C9_duplicate_codes:
  assumes "c \<in> set orphacodes" and "with_code c (disorders root) = [d1, d2]"
  shows "parse_definitions root orphacodes c = Some (disorder_definition d2) \<and>
         dict_get (parse_phenotypes root orphacodes target_freq) c [] =
           phenotype_entries target_freq d1 @ phenotype_entries target_freq d2 \<and>
         dict_get (parse_prevalence root orphacodes) c [] =
           prevalence_entries d1 @ prevalence_entries d2 \<and>
         dict_get (parse_omim root orphacodes) c [] = omim_entries d1 @ omim_entries d2"
  using assms
  by (simp add: parse_definitions_lookup parse_phenotypes_lookup parse_prevalence_lookup
      parse_omim_lookup)

text \<open>
  Claim C9, an instance: the earlier disorder has a definition, the later one has none, and
  the stored definition is empty.
\<close>

theorem C9_duplicate_codes_witness:
  "''166024'' \<in> set [''166024'', ''558''] \<and>
   with_code ''166024'' (disorders ex_doc) = [dis_a, dis_b] \<and>
   disorder_definition dis_a = ''A rare epilepsy.'' \<and>
   disorder_definition dis_b = [] \<and>
   parse_definitions ex_doc [''166024'', ''558''] ''166024'' = Some [] \<and>
   dict_get (parse_phenotypes ex_doc [''166024'', ''558''] very_frequent) ''166024'' [] =
     [''Seizure (HP:0001250)'', ''Hypotonia (HP:0001252)''] \<and>
   dict_get (parse_prevalence ex_doc [''166024'', ''558'']) ''166024'' [] =
     [''1.5 (1-9 / 100 000) (PMID:12345678,87654321)'', [], []] \<and>
   dict_get (parse_omim ex_doc [''166024'', ''558'']) ''166024'' [] =
     [''607596'', ''300672'', ''612164'']"
proof -
  have h: "''166024'' \<in> set [''166024'', ''558'']" by simp
  have w: "with_code ''166024'' (disorders ex_doc) = [dis_a, dis_b]"
    by (simp add: with_code_def disorders_def code_of_def ex_defs xml_defs)
  have da: "disorder_definition dis_a = ''A rare epilepsy.''"
    by (simp add: disorder_definition_def ex_defs xml_defs strip_def is_space_def)
  have db: "disorder_definition dis_b = []"
    by (simp add: disorder_definition_def ex_defs xml_defs)
  have pa: "phenotype_entries very_frequent dis_a = [''Seizure (HP:0001250)'']"
    by (simp add: phenotype_entries_def associations_def hpo_kept_def hpo_descriptor_def
        hpo_frequency_def hpo_term_def hpo_id_def ex_defs xml_defs)
  have pb: "phenotype_entries very_frequent dis_b = [''Hypotonia (HP:0001252)'']"
    by (simp add: phenotype_entries_def associations_def hpo_kept_def hpo_descriptor_def
        hpo_frequency_def hpo_term_def hpo_id_def ex_defs xml_defs)
  have va: "prevalence_entries dis_a = [''1.5 (1-9 / 100 000) (PMID:12345678,87654321)'', []]"
    by (simp add: prevalence_entries_def prevalences_def prevalence_str_def is_digit_def
        ex_defs xml_defs)
  have vb: "prevalence_entries dis_b = [[]]"
    by (simp add: prevalence_entries_def prevalences_def prevalence_str_def ex_defs xml_defs)
  have oa: "omim_entries dis_a = [''607596'', ''300672'']"
    by (simp add: omim_entries_def external_references_def omim_kept_def ref_source_def
        ref_id_def ex_defs xml_defs)
  have ob: "omim_entries dis_b = [''612164'']"
    by (simp add: omim_entries_def external_references_def omim_kept_def ref_source_def
        ref_id_def ex_defs xml_defs)
  from C9_duplicate_codes [OF h w, of very_frequent] h w da db pa pb va vb oa ob
  show ?thesis by simp
qed

end
